theory Spec2Isabelle
  imports Main "HOL-Library.Word" "HOL-Library.Signed_Division"
begin

unbundle bit_operations_syntax

section \<open>The RISC-V simulator: data model\<close>

subsection \<open>Integer and floating-point register banks\<close>

text \<open>
  \<^verbatim>\<open>int64_t registers_[kNumSimuRegisters]\<close>, \<^verbatim>\<open>int64_t FPUregisters_[kNumFPURegisters]\<close>
  and the flag \<^verbatim>\<open>pc_modified_\<close>. An array is a list of its length; a register number is
  the index. The enumerator \<^verbatim>\<open>pc\<close> and the constant \<^verbatim>\<open>Instruction::kPCReadOffset\<close>
  are declared in headers, so the accessors take them as arguments.
\<close>

record Simulator =
  registers :: "64 word list"
  pc_modified :: bool
  FPUregisters :: "64 word list"

definition set_register :: "nat \<Rightarrow> nat \<Rightarrow> 64 word \<Rightarrow> Simulator \<Rightarrow> Simulator" where
  "set_register pc reg val s =
     (let s1 = (if reg = pc then s\<lparr>pc_modified := True\<rparr> else s)
      in s1\<lparr>registers := (registers s1)[reg := (if reg = 0 then 0 else val)]\<rparr>)"

definition get_register :: "64 word \<Rightarrow> nat \<Rightarrow> Simulator \<Rightarrow> nat \<Rightarrow> 64 word" where
  "get_register kPCReadOffset pc s reg =
     (if reg = 0 then 0
      else registers s ! reg + (if reg = pc then kPCReadOffset else 0))"

text \<open>
  A \<^verbatim>\<open>double\<close> is its 64-bit pattern and a \<^verbatim>\<open>float\<close> its 32-bit pattern: the accessors
  only move bits (\<^verbatim>\<open>bit_cast\<close>), on a little-endian host.
\<close>

text \<open>
  Modelled from the spec: \<^verbatim>\<open>box_float\<close> and \<^verbatim>\<open>is_boxed_float\<close> are inline helpers of
  the simulator's header. NaN-boxing encodes a 32-bit value in a 64-bit cell by setting
  all upper bits; a cell holds a valid narrow value when its upper 32 bits are all ones.
\<close>

definition box_float :: "32 word \<Rightarrow> 64 word" where
  "box_float v = 0xFFFFFFFF00000000 OR ucast v"

definition is_boxed_float :: "64 word \<Rightarrow> bool" where
  "is_boxed_float v \<longleftrightarrow> drop_bit 32 v = 0xFFFFFFFF"

text \<open>\<^verbatim>\<open>std::numeric_limits<float>::quiet_NaN()\<close>\<close>

definition float_quiet_NaN :: "32 word" where
  "float_quiet_NaN = 0x7FC00000"

definition set_fpu_register_float :: "nat \<Rightarrow> 32 word \<Rightarrow> Simulator \<Rightarrow> Simulator" where
  "set_fpu_register_float fpureg val s =
     s\<lparr>FPUregisters := (FPUregisters s)[fpureg := box_float val]\<rparr>"

definition set_fpu_register_double :: "nat \<Rightarrow> 64 word \<Rightarrow> Simulator \<Rightarrow> Simulator" where
  "set_fpu_register_double fpureg val s =
     s\<lparr>FPUregisters := (FPUregisters s)[fpureg := val]\<rparr>"

definition get_fpu_register_float :: "Simulator \<Rightarrow> nat \<Rightarrow> 32 word" where
  "get_fpu_register_float s fpureg =
     (if \<not> is_boxed_float (FPUregisters s ! fpureg) then float_quiet_NaN
      else ucast (FPUregisters s ! fpureg))"

definition get_fpu_register_double :: "Simulator \<Rightarrow> nat \<Rightarrow> 64 word" where
  "get_fpu_register_double s fpureg = FPUregisters s ! fpureg"

subsection \<open>Breakpoints\<close>

text \<open>
  \<^verbatim>\<open>std::vector<Breakpoint> breakpoints_\<close>, each entry \<^verbatim>\<open>{location, enabled, is_tbreak}\<close>.
  The messages printed by \<^verbatim>\<open>PrintF\<close> are not part of the state.
\<close>

record Breakpoint =
  location :: "64 word"
  enabled :: bool
  is_tbreak :: bool

text \<open>
  The loop of \<^verbatim>\<open>SetBreakpoint\<close> returns at the first entry with the location; when it
  finds none the new breakpoint is pushed at the back.
\<close>

fun SetBreakpoint :: "Breakpoint list \<Rightarrow> 64 word \<Rightarrow> bool \<Rightarrow> Breakpoint list" where
  "SetBreakpoint [] loc tb = [\<lparr>location = loc, enabled = True, is_tbreak = tb\<rparr>]"
| "SetBreakpoint (b # bs) loc tb =
     (if location b = loc then
        (if is_tbreak b \<noteq> tb then b\<lparr>is_tbreak := tb\<rparr> # bs
         else b\<lparr>enabled := \<not> enabled b\<rparr> # bs)
      else b # SetBreakpoint bs loc tb)"

text \<open>
  \<^verbatim>\<open>CheckBreakpoints\<close>: the flag \<^verbatim>\<open>hit_a_breakpoint\<close> (on which the debugger is
  entered) and the breakpoints after the loop, which stops at the first enabled entry
  at the program counter.
\<close>

fun CheckBreakpoints :: "64 word \<Rightarrow> Breakpoint list \<Rightarrow> bool \<times> Breakpoint list" where
  "CheckBreakpoints pc [] = (False, [])"
| "CheckBreakpoints pc (b # bs) =
     (if location b = pc \<and> enabled b then
        (True, (if is_tbreak b then b\<lparr>enabled := False\<rparr> else b) # bs)
      else (case CheckBreakpoints pc bs of (hit, bs') \<Rightarrow> (hit, b # bs')))"

text \<open>The entry that stands for an address: the first one with that location.\<close>

definition breakpoint_at :: "64 word \<Rightarrow> Breakpoint list \<Rightarrow> Breakpoint option" where
  "breakpoint_at loc bs = find (\<lambda>b. location b = loc) bs"

subsection \<open>Integer division and remainder\<close>

text \<open>
  Modelled from the spec: \<^verbatim>\<open>xlen\<close>, \<^verbatim>\<open>sext_xlen\<close> and \<^verbatim>\<open>zext_xlen\<close> are macros of the
  simulator's header. Registers are 64 bits wide, so extending a value to the register
  width from \<^verbatim>\<open>xlen\<close> bits shifts by \<open>64 - xlen = 0\<close>.
\<close>

definition xlen :: nat where
  "xlen = 64"

definition sext_xlen :: "64 word \<Rightarrow> 64 word" where
  "sext_xlen x = signed_drop_bit (64 - xlen) (push_bit (64 - xlen) x)"

definition zext_xlen :: "64 word \<Rightarrow> 64 word" where
  "zext_xlen x = drop_bit (64 - xlen) (push_bit (64 - xlen) x)"

definition INT64_MIN :: "64 word" where
  "INT64_MIN = 0x8000000000000000"

definition UINT64_MAX :: "64 word" where
  "UINT64_MAX = 0xFFFFFFFFFFFFFFFF"

text \<open>
  The host's \<^verbatim>\<open>/\<close> and \<^verbatim>\<open>%\<close> on \<^verbatim>\<open>int64_t\<close> and \<^verbatim>\<open>uint64_t\<close>: they truncate towards
  zero, and they are undefined (a trap on the usual hosts) for a zero divisor and for
  \<^verbatim>\<open>INT64_MIN\<close> by \<open>-1\<close>. \<open>None\<close> is that trap.
\<close>

definition int64_div :: "64 word \<Rightarrow> 64 word \<Rightarrow> 64 word option" where
  "int64_div a b =
     (if b = 0 \<or> (a = INT64_MIN \<and> b = - 1) then None
      else Some (word_of_int (sint a sdiv sint b)))"

definition int64_rem :: "64 word \<Rightarrow> 64 word \<Rightarrow> 64 word option" where
  "int64_rem a b =
     (if b = 0 \<or> (a = INT64_MIN \<and> b = - 1) then None
      else Some (word_of_int (sint a smod sint b)))"

definition uint64_div :: "64 word \<Rightarrow> 64 word \<Rightarrow> 64 word option" where
  "uint64_div a b = (if b = 0 then None else Some (a div b))"

definition uint64_rem :: "64 word \<Rightarrow> 64 word \<Rightarrow> 64 word option" where
  "uint64_rem a b = (if b = 0 then None else Some (a mod b))"

text \<open>
  The four cases of \<^verbatim>\<open>DecodeRVRType\<close> for division and remainder: from the values of
  \<^verbatim>\<open>rs1()\<close> and \<^verbatim>\<open>rs2()\<close> to the value passed to \<^verbatim>\<open>set_rd\<close>.
\<close>

datatype RType_op = RO_DIV | RO_DIVU | RO_REM | RO_REMU

fun DecodeRVRType :: "RType_op \<Rightarrow> 64 word \<Rightarrow> 64 word \<Rightarrow> 64 word option" where
  "DecodeRVRType RO_DIV rs1 rs2 =
     (let lhs = sext_xlen rs1; rhs = sext_xlen rs2 in
      if rhs = 0 then Some (- 1)
      else if lhs = INT64_MIN \<and> rhs = - 1 then Some lhs
      else map_option sext_xlen (int64_div lhs rhs))"
| "DecodeRVRType RO_DIVU rs1 rs2 =
     (let lhs = zext_xlen rs1; rhs = zext_xlen rs2 in
      if rhs = 0 then Some UINT64_MAX
      else map_option zext_xlen (uint64_div lhs rhs))"
| "DecodeRVRType RO_REM rs1 rs2 =
     (let lhs = sext_xlen rs1; rhs = sext_xlen rs2 in
      if rhs = 0 then Some lhs
      else if lhs = INT64_MIN \<and> rhs = - 1 then Some 0
      else map_option sext_xlen (int64_rem lhs rhs))"
| "DecodeRVRType RO_REMU rs1 rs2 =
     (let lhs = zext_xlen rs1; rhs = zext_xlen rs2 in
      if rhs = 0 then Some lhs
      else map_option zext_xlen (uint64_rem lhs rhs))"


subsection \<open>Saturating addition\<close>

text \<open>
  \<^verbatim>\<open>sat_add<T, UT>\<close> at any width: \<^verbatim>\<open>UT\<close> is the word, \<^verbatim>\<open>(T)v >= 0\<close> the signed
  comparison, and the result is paired with the out-parameter \<^verbatim>\<open>sat\<close>. For the 8 and
  16 bit instances the host computes in \<^verbatim>\<open>int\<close> and truncates on assignment, which
  gives the same bits as the arithmetic at the width.
\<close>

definition sat_add :: "'a::len word \<Rightarrow> 'a word \<Rightarrow> 'a word \<times> bool" where
  "sat_add x y =
     (let ux = x;
          uy = y;
          res = ux + uy;
          sh = LENGTH('a) - 1;
          ux = drop_bit sh ux + (push_bit sh 1 - 1)
      in if 0 \<le>s ((ux XOR uy) OR NOT (uy XOR res)) then (ux, True) else (res, False))"

subsection \<open>Local and global monitors\<close>

text \<open>
  \<^verbatim>\<open>Simulator::LocalMonitor\<close> with its fields \<^verbatim>\<open>access_state_\<close>, \<^verbatim>\<open>tagged_addr_\<close> and
  \<^verbatim>\<open>size_\<close>. The enumerations are declared in the header; the transaction sizes are
  those the instructions use.
\<close>

datatype MonitorAccess = Open | RMW

datatype TransactionSize = TransactionSize_None | TransactionSize_Word | TransactionSize_DoubleWord

record LocalMonitor =
  access_state :: MonitorAccess
  tagged_addr :: "64 word"
  size_field :: TransactionSize

definition LocalMonitor_init :: LocalMonitor where
  "LocalMonitor_init =
     \<lparr>access_state = Open, tagged_addr = 0, size_field = TransactionSize_None\<rparr>"

definition Clear :: "LocalMonitor \<Rightarrow> LocalMonitor" where
  "Clear m = m\<lparr>access_state := Open, tagged_addr := 0, size_field := TransactionSize_None\<rparr>"

definition NotifyLoad :: "LocalMonitor \<Rightarrow> LocalMonitor" where
  "NotifyLoad m = (if access_state m = RMW then Clear m else m)"

definition NotifyLoadLinked :: "64 word \<Rightarrow> TransactionSize \<Rightarrow> LocalMonitor \<Rightarrow> LocalMonitor" where
  "NotifyLoadLinked addr sz m = m\<lparr>access_state := RMW, tagged_addr := addr, size_field := sz\<rparr>"

definition NotifyStore :: "LocalMonitor \<Rightarrow> LocalMonitor" where
  "NotifyStore m = (if access_state m = RMW then Clear m else m)"

definition NotifyStoreConditional ::
  "64 word \<Rightarrow> TransactionSize \<Rightarrow> LocalMonitor \<Rightarrow> bool \<times> LocalMonitor" where
  "NotifyStoreConditional addr sz m =
     (if access_state m = RMW then
        (if addr = tagged_addr m \<and> size_field m = sz then (True, Clear m) else (False, m))
      else (False, m))"

text \<open>
  \<^verbatim>\<open>GlobalMonitor::LinkedAddress\<close>: the fields \<^verbatim>\<open>access_state_\<close>, \<^verbatim>\<open>tagged_addr_\<close> and
  \<^verbatim>\<open>failure_counter_\<close>. The constants \<^verbatim>\<open>kMaxFailureCounter\<close> and
  \<^verbatim>\<open>kExclusiveTaggedAddrMask\<close> are declared in the header and are arguments here.
  \<^verbatim>\<open>failure_counter_++ >= kMaxFailureCounter\<close> compares the old value and then increments.
\<close>

record LinkedAddress =
  linked_access_state :: MonitorAccess
  linked_tagged_addr :: "64 word"
  failure_counter :: int

definition LinkedAddress_init :: LinkedAddress where
  "LinkedAddress_init =
     \<lparr>linked_access_state = Open, linked_tagged_addr = 0, failure_counter = 0\<rparr>"

definition Clear_Locked :: "LinkedAddress \<Rightarrow> LinkedAddress" where
  "Clear_Locked a = a\<lparr>linked_access_state := Open, linked_tagged_addr := 0\<rparr>"

definition NotifyLoadLinked_Locked :: "64 word \<Rightarrow> LinkedAddress \<Rightarrow> LinkedAddress" where
  "NotifyLoadLinked_Locked addr a = a\<lparr>linked_access_state := RMW, linked_tagged_addr := addr\<rparr>"

definition NotifyStore_Locked :: "LinkedAddress \<Rightarrow> LinkedAddress" where
  "NotifyStore_Locked a = (if linked_access_state a = RMW then Clear_Locked a else a)"

definition NotifyStoreConditional_Locked ::
  "int \<Rightarrow> 64 word \<Rightarrow> 64 word \<Rightarrow> bool \<Rightarrow> LinkedAddress \<Rightarrow> bool \<times> LinkedAddress" where
  "NotifyStoreConditional_Locked kMaxFailureCounter kExclusiveTaggedAddrMask addr
       is_requesting_thread a =
     (if linked_access_state a = RMW then
        (if is_requesting_thread then
           (if addr = linked_tagged_addr a then
              (let a1 = Clear_Locked a in
               if failure_counter a1 \<ge> kMaxFailureCounter
               then (False, a1\<lparr>failure_counter := 0\<rparr>)
               else (True, a1\<lparr>failure_counter := failure_counter a1 + 1\<rparr>))
            else (False, a))
         else if addr AND kExclusiveTaggedAddrMask
                 = linked_tagged_addr a AND kExclusiveTaggedAddrMask
         then (False, Clear_Locked a)
         else (False, a))
      else (False, a))"

text \<open>
  \<^verbatim>\<open>GlobalMonitor\<close>: the doubly linked list that starts at \<^verbatim>\<open>head_\<close> is the list of the
  processors on it, in order, and \<open>linked\<close> gives each processor's \<^verbatim>\<open>LinkedAddress\<close>
  (its \<^verbatim>\<open>global_monitor_thread_\<close>). The functions run under the monitor's mutex.
\<close>

record GlobalMonitor =
  head :: "nat list"
  linked :: "nat \<Rightarrow> LinkedAddress"

definition GlobalMonitor_init :: GlobalMonitor where
  "GlobalMonitor_init = \<lparr>head = [], linked = (\<lambda>_. LinkedAddress_init)\<rparr>"

definition IsProcessorInLinkedList_Locked :: "nat \<Rightarrow> GlobalMonitor \<Rightarrow> bool" where
  "IsProcessorInLinkedList_Locked p g \<longleftrightarrow> p \<in> set (head g)"

definition PrependProcessor_Locked :: "nat \<Rightarrow> GlobalMonitor \<Rightarrow> GlobalMonitor" where
  "PrependProcessor_Locked p g =
     (if IsProcessorInLinkedList_Locked p g then g else g\<lparr>head := p # head g\<rparr>)"

definition GlobalMonitor_NotifyLoadLinked_Locked ::
  "64 word \<Rightarrow> nat \<Rightarrow> GlobalMonitor \<Rightarrow> GlobalMonitor" where
  "GlobalMonitor_NotifyLoadLinked_Locked addr p g =
     PrependProcessor_Locked p
       (g\<lparr>linked := (linked g)(p := NotifyLoadLinked_Locked addr (linked g p))\<rparr>)"

definition GlobalMonitor_NotifyStore_Locked :: "nat \<Rightarrow> GlobalMonitor \<Rightarrow> GlobalMonitor" where
  "GlobalMonitor_NotifyStore_Locked p g =
     g\<lparr>linked := fold (\<lambda>iter c. c(iter := NotifyStore_Locked (c iter))) (head g) (linked g)\<rparr>"

definition GlobalMonitor_NotifyStoreConditional_Locked ::
  "int \<Rightarrow> 64 word \<Rightarrow> 64 word \<Rightarrow> nat \<Rightarrow> GlobalMonitor \<Rightarrow> bool \<times> GlobalMonitor" where
  "GlobalMonitor_NotifyStoreConditional_Locked kMaxFailureCounter kExclusiveTaggedAddrMask
       addr p g =
     (case NotifyStoreConditional_Locked kMaxFailureCounter kExclusiveTaggedAddrMask addr True
             (linked g p) of
        (ok, a) \<Rightarrow>
          (let g1 = g\<lparr>linked := (linked g)(p := a)\<rparr> in
           if ok then
             (True, g1\<lparr>linked :=
                fold (\<lambda>iter c.
                        if iter \<noteq> p
                        then c(iter := snd (NotifyStoreConditional_Locked kMaxFailureCounter
                                              kExclusiveTaggedAddrMask addr False (c iter)))
                        else c)
                  (head g1) (linked g1)\<rparr>)
           else (False, g1)))"

text \<open>
  What \<^verbatim>\<open>RO_LR_W\<close>/\<^verbatim>\<open>RO_LR_D\<close> and \<^verbatim>\<open>RO_SC_W\<close>/\<^verbatim>\<open>RO_SC_D\<close> do to the monitors of
  processor \<open>p\<close>. The store-conditional asks the local monitor first and the global one
  only when the local one agrees (\<^verbatim>\<open>&&\<close>); its result is the success of the store.
  \<^verbatim>\<open>RO_SC_W\<close> notifies the local monitor of the store, \<^verbatim>\<open>RO_SC_D\<close> does not.
\<close>

definition load_linked ::
  "nat \<Rightarrow> 64 word \<Rightarrow> TransactionSize \<Rightarrow> LocalMonitor \<times> GlobalMonitor
   \<Rightarrow> LocalMonitor \<times> GlobalMonitor" where
  "load_linked p addr sz s =
     (case s of (m, g) \<Rightarrow>
        (NotifyLoadLinked addr sz m, GlobalMonitor_NotifyLoadLinked_Locked addr p g))"

definition store_conditional ::
  "int \<Rightarrow> 64 word \<Rightarrow> nat \<Rightarrow> 64 word \<Rightarrow> TransactionSize \<Rightarrow> LocalMonitor \<times> GlobalMonitor
   \<Rightarrow> bool \<times> LocalMonitor \<times> GlobalMonitor" where
  "store_conditional kMaxFailureCounter kExclusiveTaggedAddrMask p addr sz s =
     (case s of (m, g) \<Rightarrow>
        (case NotifyStoreConditional addr sz m of
           (ok1, m1) \<Rightarrow>
             if \<not> ok1 then (False, m1, g)
             else
               (case GlobalMonitor_NotifyStoreConditional_Locked kMaxFailureCounter
                       kExclusiveTaggedAddrMask addr p g of
                  (ok2, g1) \<Rightarrow>
                    if ok2 then
                      (True,
                       (if sz = TransactionSize_Word then NotifyStore m1 else m1),
                       GlobalMonitor_NotifyStore_Locked p g1)
                    else (False, m1, g1))))"

text \<open>A load-linked immediately followed by a store-conditional to the same address.\<close>

definition ll_sc :: "int \<Rightarrow> 64 word \<Rightarrow> nat \<Rightarrow> 64 word \<Rightarrow> TransactionSize \<Rightarrow> LocalMonitor \<times> GlobalMonitor
   \<Rightarrow> bool \<times> LocalMonitor \<times> GlobalMonitor" where
  "ll_sc K M p addr sz s = store_conditional K M p addr sz (load_linked p addr sz s)"

subsection \<open>Floating-point minimum and maximum\<close>

text \<open>
  A binary floating-point value is its bit pattern, a word of the format's width;
  \<open>frac\<close> is the number of fraction bits (23 for \<^verbatim>\<open>float\<close>, 52 for \<^verbatim>\<open>double\<close>). The sign
  is the top bit and the rest is the magnitude. A NaN has a magnitude above that of
  infinity (exponent all ones, fraction 0). Values that are not NaN are ordered by sign
  and magnitude, the two zeros being equal; \<^verbatim>\<open>==\<close> is false as soon as one side is a NaN.
  \<^verbatim>\<open>fmax\<close> and \<^verbatim>\<open>fmin\<close> return the other operand when one is a NaN.
\<close>

definition float_inf_bits :: "nat \<Rightarrow> 'a::len word" where
  "float_inf_bits frac = push_bit frac (mask (LENGTH('a) - 1 - frac))"

definition float_magnitude :: "'a::len word \<Rightarrow> 'a word" where
  "float_magnitude w = take_bit (LENGTH('a) - 1) w"

definition signbit :: "'a::len word \<Rightarrow> bool" where
  "signbit w \<longleftrightarrow> bit w (LENGTH('a) - 1)"

definition isnan :: "nat \<Rightarrow> 'a::len word \<Rightarrow> bool" where
  "isnan frac w \<longleftrightarrow> float_inf_bits frac < float_magnitude w"

definition float_order :: "'a::len word \<Rightarrow> int" where
  "float_order w = (if signbit w then - uint (float_magnitude w) else uint (float_magnitude w))"

definition float_eq :: "nat \<Rightarrow> 'a::len word \<Rightarrow> 'a word \<Rightarrow> bool" where
  "float_eq frac a b \<longleftrightarrow> \<not> isnan frac a \<and> \<not> isnan frac b \<and> float_order a = float_order b"

definition fmax :: "nat \<Rightarrow> 'a::len word \<Rightarrow> 'a word \<Rightarrow> 'a word" where
  "fmax frac a b =
     (if isnan frac a then b else if isnan frac b then a
      else if float_order a < float_order b then b else a)"

definition fmin :: "nat \<Rightarrow> 'a::len word \<Rightarrow> 'a word \<Rightarrow> 'a word" where
  "fmin frac a b =
     (if isnan frac a then b else if isnan frac b then a
      else if float_order b < float_order a then b else a)"

text \<open>
  \<^verbatim>\<open>std::numeric_limits<float>::quiet_NaN()\<close> converted to the format (exponent all ones
  and the top fraction bit), and \<^verbatim>\<open>std::numeric_limits<T>::signaling_NaN()\<close> (exponent all
  ones and the second fraction bit).
\<close>

definition quiet_NaN :: "nat \<Rightarrow> 'a::len word" where
  "quiet_NaN frac = push_bit (frac - 1) (mask (LENGTH('a) - frac))"

definition signaling_NaN :: "nat \<Rightarrow> 'a::len word" where
  "signaling_NaN frac = float_inf_bits frac OR push_bit (frac - 2) 1"

text \<open>
  \<^verbatim>\<open>set_csr_bits\<close> on the register \<^verbatim>\<open>FCSR_\<close>, for the three registers it implements. The
  constants \<^verbatim>\<open>kFcsrFrmShift\<close> and \<^verbatim>\<open>kInvalidOperation\<close> are declared in a header and are
  arguments.
\<close>

datatype csr = csr_fflags | csr_frm | csr_fcsr

definition set_csr_bits :: "nat \<Rightarrow> csr \<Rightarrow> 64 word \<Rightarrow> 32 word \<Rightarrow> 32 word" where
  "set_csr_bits kFcsrFrmShift c val FCSR =
     (let v = (ucast val :: 32 word) in
      case c of
        csr_fflags \<Rightarrow> FCSR OR v
      | csr_frm \<Rightarrow> FCSR OR push_bit kFcsrFrmShift v
      | csr_fcsr \<Rightarrow> FCSR OR v)"

text \<open>\<^verbatim>\<open>FMaxMinHelper\<close>: the result and the register \<^verbatim>\<open>FCSR_\<close> after the call.\<close>

datatype MaxMinKind = kMin | kMax

definition FMaxMinHelper ::
  "nat \<Rightarrow> nat \<Rightarrow> 64 word \<Rightarrow> 'a::len word \<Rightarrow> 'a word \<Rightarrow> MaxMinKind \<Rightarrow> 32 word
   \<Rightarrow> 'a word \<times> 32 word" where
  "FMaxMinHelper frac kFcsrFrmShift kInvalidOperation a b kind FCSR =
     (let FCSR1 =
        (if float_eq frac a (signaling_NaN frac) \<or> float_eq frac b (signaling_NaN frac)
         then set_csr_bits kFcsrFrmShift csr_fflags kInvalidOperation FCSR
         else FCSR);
          result =
        (if isnan frac a \<and> isnan frac b then quiet_NaN frac
         else if isnan frac a then b
         else if isnan frac b then a
         else if float_eq frac b a then
           (if kind = kMax then (if signbit b then a else b)
            else (if signbit b then b else a))
         else (if kind = kMax then fmax frac a b else fmin frac a b))
      in (result, FCSR1))"

subsection \<open>Vector registers and the integer vector-vector instructions\<close>

text \<open>
  The vector state the two instructions use: the register bank \<^verbatim>\<open>Vregister_\<close> (32 cells of
  128 bits) as a store of bytes, and the values of \<^verbatim>\<open>rvv_vstart()\<close>, \<^verbatim>\<open>rvv_vl()\<close>,
  \<^verbatim>\<open>rvv_vsew()\<close> and \<^verbatim>\<open>rvv_vlmax()\<close>, which are 64-bit unsigned numbers read from the
  vector configuration by accessors of the header. The element widths are those this
  file names; the loop counter never passes \<^verbatim>\<open>rvv_vl()\<close>, so it cannot wrap.
\<close>

datatype VSew = E8 | E16 | E32 | E64 | E128

record VState =
  Vregister :: "nat \<Rightarrow> 8 word"
  vstart :: nat
  vl :: nat
  vsew :: VSew
  vlmax :: nat

text \<open>The fields of the instruction word that the two instructions decode.\<close>

record Instruction =
  RvvVM :: bool
  rvv_vd_reg :: nat
  rvv_vs1_reg :: nat
  rvv_vs2_reg :: nat

text \<open>
  Modelled from the spec: \<^verbatim>\<open>Rvvelt<T>(vReg, n)\<close> is a template of the header. It is the
  generic element accessor that computes a byte offset from the element index and the
  width: element \<open>n\<close> of register \<open>vReg\<close> at a width of \<open>w\<close> bytes occupies the \<open>w\<close> bytes
  from offset \<open>16 * vReg + w * n\<close> of the bank, least significant byte first. A read
  gives the element as an unsigned number; a write through the returned reference stores
  the low \<open>w\<close> bytes of a number.
\<close>

fun load_bytes :: "nat \<Rightarrow> (nat \<Rightarrow> 8 word) \<Rightarrow> nat \<Rightarrow> nat" where
  "load_bytes 0 V a = 0"
| "load_bytes (Suc w) V a = unat (V a) + 256 * load_bytes w V (Suc a)"

fun store_bytes :: "nat \<Rightarrow> (nat \<Rightarrow> 8 word) \<Rightarrow> nat \<Rightarrow> nat \<Rightarrow> nat \<Rightarrow> 8 word" where
  "store_bytes 0 V a v = V"
| "store_bytes (Suc w) V a v = store_bytes w (V(a := of_nat (v mod 256))) (Suc a) (v div 256)"

definition elt_offset :: "nat \<Rightarrow> nat \<Rightarrow> nat \<Rightarrow> nat" where
  "elt_offset w vReg n = vReg * 16 + n * w"

definition Rvvelt :: "nat \<Rightarrow> (nat \<Rightarrow> 8 word) \<Rightarrow> nat \<Rightarrow> nat \<Rightarrow> nat" where
  "Rvvelt w V vReg n = load_bytes w V (elt_offset w vReg n)"

definition Rvvelt_write :: "nat \<Rightarrow> (nat \<Rightarrow> 8 word) \<Rightarrow> nat \<Rightarrow> nat \<Rightarrow> nat \<Rightarrow> nat \<Rightarrow> 8 word" where
  "Rvvelt_write w V vReg n v = store_bytes w V (elt_offset w vReg n) v"

text \<open>The fatal exits: \<^verbatim>\<open>UNREACHABLE()\<close> and a failed \<^verbatim>\<open>CHECK_NE\<close>.\<close>

datatype error = Unreachable | Check_failed

text \<open>
  One iteration of \<^verbatim>\<open>RVV_VI_VV_LOOP_WITH_CARRY\<close> with the body of \<^verbatim>\<open>RO_V_VADC_VV\<close>.
  \<^verbatim>\<open>midx\<close> and \<^verbatim>\<open>mpos\<close> are \<^verbatim>\<open>uint8_t\<close>. The body is
  \<^verbatim>\<open>vd = vs1 + vs2 + (v0 >> mpos) & 0x1\<close>, in which \<^verbatim>\<open>+\<close> binds tighter than \<^verbatim>\<open>&\<close>: the
  sum of the two signed elements (computed in \<^verbatim>\<open>int\<close> for 8, 16 and 32 bits) is converted
  to 64 bits, the shifted mask word is added, the result is masked with 1 and truncated to
  the element. For other widths the loop has no branch. The loop ends each iteration with
  \<^verbatim>\<open>set_rvv_vstart(0)\<close>.
\<close>

definition vadc_step :: "Instruction \<Rightarrow> nat \<Rightarrow> VState \<Rightarrow> VState" where
  "vadc_step instr i s =
     (let midx = (i div 64) mod 256;
          mpos = (i mod 64) mod 256;
          V = Vregister s;
          v0 = (of_nat (Rvvelt 8 V 0 midx) :: 64 word);
          V1 =
            (if vsew s = E8 then
               (let vs2 = (of_nat (Rvvelt 1 V (rvv_vs2_reg instr) i) :: 8 word);
                    vs1 = (of_nat (Rvvelt 1 V (rvv_vs1_reg instr) i) :: 8 word);
                    vd = (ucast ((scast ((scast vs1 + scast vs2) :: 32 word) + drop_bit mpos v0)
                                 AND (1 :: 64 word)) :: 8 word)
                in Rvvelt_write 1 V (rvv_vd_reg instr) i (unat vd))
             else if vsew s = E16 then
               (let vs2 = (of_nat (Rvvelt 2 V (rvv_vs2_reg instr) i) :: 16 word);
                    vs1 = (of_nat (Rvvelt 2 V (rvv_vs1_reg instr) i) :: 16 word);
                    vd = (ucast ((scast ((scast vs1 + scast vs2) :: 32 word) + drop_bit mpos v0)
                                 AND (1 :: 64 word)) :: 16 word)
                in Rvvelt_write 2 V (rvv_vd_reg instr) i (unat vd))
             else if vsew s = E32 then
               (let vs2 = (of_nat (Rvvelt 4 V (rvv_vs2_reg instr) i) :: 32 word);
                    vs1 = (of_nat (Rvvelt 4 V (rvv_vs1_reg instr) i) :: 32 word);
                    vd = (ucast ((scast (vs1 + vs2) + drop_bit mpos v0)
                                 AND (1 :: 64 word)) :: 32 word)
                in Rvvelt_write 4 V (rvv_vd_reg instr) i (unat vd))
             else if vsew s = E64 then
               (let vs2 = (of_nat (Rvvelt 8 V (rvv_vs2_reg instr) i) :: 64 word);
                    vs1 = (of_nat (Rvvelt 8 V (rvv_vs1_reg instr) i) :: 64 word);
                    vd = ((vs1 + vs2 + drop_bit mpos v0) AND (1 :: 64 word))
                in Rvvelt_write 8 V (rvv_vd_reg instr) i (unat vd))
             else V)
      in s\<lparr>Vregister := V1, vstart := 0\<rparr>)"

text \<open>
  One iteration of the loop of \<^verbatim>\<open>RO_V_VRGATHER_VV\<close>: the \<^verbatim>\<open>switch\<close> takes unsigned
  elements of 8, 16 or 32 bits, and of 64 bits in its \<^verbatim>\<open>default\<close> case.
\<close>

definition vrgather_width :: "VSew \<Rightarrow> nat" where
  "vrgather_width sew = (case sew of E8 \<Rightarrow> 1 | E16 \<Rightarrow> 2 | E32 \<Rightarrow> 4 | _ \<Rightarrow> 8)"

definition vrgather_step :: "Instruction \<Rightarrow> nat \<Rightarrow> VState \<Rightarrow> VState" where
  "vrgather_step instr i s =
     (let w = vrgather_width (vsew s);
          V = Vregister s;
          vs1 = Rvvelt w V (rvv_vs1_reg instr) i;
          V1 = Rvvelt_write w V (rvv_vd_reg instr) i
                 (if vs1 \<ge> vlmax s then 0 else Rvvelt w V (rvv_vs2_reg instr) vs1)
      in s\<lparr>Vregister := V1, vstart := 0\<rparr>)"

text \<open>
  The two cases of \<^verbatim>\<open>DecodeRvvIVV\<close>. The loops run \<^verbatim>\<open>i\<close> from \<^verbatim>\<open>rvv_vstart()\<close>, read
  once, while \<^verbatim>\<open>i < rvv_vl()\<close>. After the \<^verbatim>\<open>switch\<close> the function ends with
  \<^verbatim>\<open>set_rvv_vstart(0)\<close>, which the fatal exits do not reach.
\<close>

datatype IVV_op = RO_V_VADC_VV | RO_V_VRGATHER_VV

fun DecodeRvvIVV :: "IVV_op \<Rightarrow> Instruction \<Rightarrow> VState \<Rightarrow> error + VState" where
  "DecodeRvvIVV RO_V_VADC_VV instr s =
     (if RvvVM instr then
        (if rvv_vd_reg instr = 0 then Inl Check_failed
         else Inr ((fold (vadc_step instr) [vstart s ..< vl s] s)\<lparr>vstart := 0\<rparr>))
      else Inl Unreachable)"
| "DecodeRvvIVV RO_V_VRGATHER_VV instr s =
     Inr ((fold (vrgather_step instr) [vstart s ..< vl s] s)\<lparr>vstart := 0\<rparr>)"






text \<open>
  Three vector states for the examples. In each, every byte that is not listed is 0.
  \<open>vadc_input\<close>: 8-bit elements, one active element, \<open>v1[0] = 2\<close>, \<open>v2[0] = 3\<close>, mask
  register 0. \<open>vrgather_input\<close>: 8-bit elements, two active elements, \<open>v1 = [10, 20]\<close>,
  \<open>v2 = [1, 0]\<close>. \<open>vrgather_input_E128\<close>: 128-bit elements, one active element, \<open>v1[0]\<close>
  with byte 0 equal to 10 and byte 8 equal to 20.
\<close>

definition vadc_input :: VState where
  "vadc_input =
     \<lparr>Vregister = (\<lambda>_. 0)(16 := 2, 32 := 3), vstart = 0, vl = 1, vsew = E8, vlmax = 16\<rparr>"



section \<open>Properties\<close>

subsection \<open>Register file\<close>

text \<open>
  C1. For a valid register index, writing \<open>v\<close> with \<^verbatim>\<open>set_register\<close> and reading with
  \<^verbatim>\<open>get_register\<close> gives \<open>v\<close> when the index is not 0, and 0 when it is 0, for
  every 64-bit \<open>v\<close>. At the index \<^verbatim>\<open>pc\<close> the read adds the header constant
  \<^verbatim>\<open>Instruction::kPCReadOffset\<close>, so there the statement holds for a read offset of 0.
\<close>

theorem set_register_get_register:
  assumes "reg < length (registers s)"
    and "reg = pc \<longrightarrow> kPCReadOffset = 0"
  shows "get_register kPCReadOffset pc (set_register pc reg v s) reg
         = (if reg = 0 then 0 else v)"
  using assms by (auto simp: get_register_def set_register_def Let_def)

theorem set_register_get_register_witness:
  "get_register 0 32 (set_register 32 5 0xDEADBEEF
      \<lparr>registers = replicate 33 0, pc_modified = False, FPUregisters = replicate 32 0\<rparr>) 5
     = 0xDEADBEEF
   \<and> get_register 0 32 (set_register 32 0 0xDEADBEEF
      \<lparr>registers = replicate 33 0, pc_modified = False, FPUregisters = replicate 32 0\<rparr>) 0
     = 0"
  using set_register_get_register [of 5
      "\<lparr>registers = replicate 33 0, pc_modified = False, FPUregisters = replicate 32 0\<rparr>"
      32 0 "0xDEADBEEF"]
    set_register_get_register [of 0
      "\<lparr>registers = replicate 33 0, pc_modified = False, FPUregisters = replicate 32 0\<rparr>"
      32 0 "0xDEADBEEF"]
  by simp

subsection \<open>Floating-point register bank\<close>

lemma upper_ones: "(0xFFFFFFFF00000000 :: 64 word) = push_bit 32 (mask 32)"
  by (simp add: mask_eq_exp_minus_1 push_bit_eq_mult)

lemma lower_ones: "(0xFFFFFFFF :: 64 word) = mask 32"
  by (simp add: mask_eq_exp_minus_1)

lemma is_boxed_box_float: "is_boxed_float (box_float v)"
  unfolding is_boxed_float_def box_float_def upper_ones lower_ones
  by (rule bit_word_eqI) (auto simp: bit_simps)

lemma ucast_box_float: "ucast (box_float v) = v"
  unfolding box_float_def upper_ones
  by (rule bit_word_eqI) (auto simp: bit_simps)

text \<open>
  C6. A double written with \<^verbatim>\<open>set_fpu_register_double\<close> is read back bit for bit by
  \<^verbatim>\<open>get_fpu_register_double\<close>; a float written with \<^verbatim>\<open>set_fpu_register_float\<close>
  (NaN-boxed) is read back bit for bit by \<^verbatim>\<open>get_fpu_register_float\<close>; and a register
  whose upper 32 bits are not all ones reads as the quiet NaN through
  \<^verbatim>\<open>get_fpu_register_float\<close>.
\<close>

theorem fpu_register_round_trip:
  assumes "fpureg < length (FPUregisters s)"
  shows "get_fpu_register_double (set_fpu_register_double fpureg d s) fpureg = d
    \<and> get_fpu_register_float (set_fpu_register_float fpureg f s) fpureg = f
    \<and> (drop_bit 32 (FPUregisters s ! fpureg) \<noteq> 0xFFFFFFFF \<longrightarrow>
         get_fpu_register_float s fpureg = float_quiet_NaN)"
proof (intro conjI impI)
  show "get_fpu_register_double (set_fpu_register_double fpureg d s) fpureg = d"
    using assms by (simp add: get_fpu_register_double_def set_fpu_register_double_def)
  show "get_fpu_register_float (set_fpu_register_float fpureg f s) fpureg = f"
    using assms
    by (simp add: get_fpu_register_float_def set_fpu_register_float_def
        is_boxed_box_float ucast_box_float)
  show "get_fpu_register_float s fpureg = float_quiet_NaN"
    if "drop_bit 32 (FPUregisters s ! fpureg) \<noteq> 0xFFFFFFFF"
    using that by (simp add: get_fpu_register_float_def is_boxed_float_def)
qed

theorem fpu_register_round_trip_witness:
  "get_fpu_register_double (set_fpu_register_double 3 0x400921FB54442D18
      \<lparr>registers = replicate 33 0, pc_modified = False, FPUregisters = replicate 32 0\<rparr>) 3
     = 0x400921FB54442D18
   \<and> get_fpu_register_float (set_fpu_register_float 3 0xC0490FDB
      \<lparr>registers = replicate 33 0, pc_modified = False, FPUregisters = replicate 32 0\<rparr>) 3
     = 0xC0490FDB
   \<and> get_fpu_register_float
      \<lparr>registers = replicate 33 0, pc_modified = False, FPUregisters = replicate 32 0\<rparr> 3
     = 0x7FC00000"
  using fpu_register_round_trip [of 3
      "\<lparr>registers = replicate 33 0, pc_modified = False, FPUregisters = replicate 32 0\<rparr>"
      "0x400921FB54442D18" "0xC0490FDB"]
  by (simp add: float_quiet_NaN_def)

subsection \<open>Breakpoints\<close>

lemma SetBreakpoint_length_found:
  "breakpoint_at loc bs \<noteq> None \<Longrightarrow> length (SetBreakpoint bs loc tb) = length bs"
  by (induction bs) (auto simp: breakpoint_at_def)

lemma SetBreakpoint_found: "breakpoint_at loc (SetBreakpoint bs loc tb) \<noteq> None"
  by (induction bs) (auto simp: breakpoint_at_def)

lemma SetBreakpoint_locations_found:
  "breakpoint_at loc bs \<noteq> None \<Longrightarrow> map location (SetBreakpoint bs loc tb) = map location bs"
  by (induction bs) (auto simp: breakpoint_at_def)

lemma SetBreakpoint_at_same:
  "breakpoint_at loc bs = Some b \<Longrightarrow>
   breakpoint_at loc (SetBreakpoint bs loc tb) =
     Some (if is_tbreak b \<noteq> tb then b\<lparr>is_tbreak := tb\<rparr> else b\<lparr>enabled := \<not> enabled b\<rparr>)"
  by (induction bs) (auto simp: breakpoint_at_def)

lemma SetBreakpoint_at_other:
  "loc' \<noteq> loc \<Longrightarrow> breakpoint_at loc' (SetBreakpoint bs loc tb) = breakpoint_at loc' bs"
  by (induction bs) (auto simp: breakpoint_at_def)

lemma SetBreakpoint_distinct:
  "distinct (map location bs) \<Longrightarrow> distinct (map location (SetBreakpoint bs loc tb))"
proof (induction bs)
  case Nil then show ?case by simp
next
  case (Cons b bs)
  have "location ` set (SetBreakpoint bs loc tb) \<subseteq> insert loc (location ` set bs)"
    by (induction bs) auto
  with Cons show ?case by auto
qed

lemma CheckBreakpoints_length: "length (snd (CheckBreakpoints pc bs)) = length bs"
  by (induction bs) (auto split: prod.splits)

lemma CheckBreakpoints_no_hit:
  "\<forall>b\<in>set bs. location b = pc \<longrightarrow> \<not> enabled b \<Longrightarrow> CheckBreakpoints pc bs = (False, bs)"
  by (induction bs) auto

lemma breakpoint_at_None: "breakpoint_at loc bs = None \<longleftrightarrow> loc \<notin> location ` set bs"
  by (induction bs) (auto simp: breakpoint_at_def)

lemma CheckBreakpoints_tbreak:
  assumes "distinct (map location bs)" "breakpoint_at pc bs = Some b" "enabled b" "is_tbreak b"
  shows "fst (CheckBreakpoints pc bs)
    \<and> breakpoint_at pc (snd (CheckBreakpoints pc bs)) = Some (b\<lparr>enabled := False\<rparr>)
    \<and> CheckBreakpoints pc (snd (CheckBreakpoints pc bs)) = (False, snd (CheckBreakpoints pc bs))"
  using assms
proof (induction bs)
  case Nil
  then show ?case by (simp add: breakpoint_at_def)
next
  case (Cons a bs)
  show ?case
  proof (cases "location a = pc")
    case True
    with Cons.prems have ab: "a = b" by (simp add: breakpoint_at_def)
    from True Cons.prems(1) have "pc \<notin> location ` set bs" by simp
    then have "\<forall>x\<in>set bs. location x \<noteq> pc" by blast
    then have "CheckBreakpoints pc bs = (False, bs)"
      by (simp add: CheckBreakpoints_no_hit)
    with True ab Cons.prems(3,4) show ?thesis
      by (simp add: breakpoint_at_def)
  next
    case False
    with Cons.prems have "breakpoint_at pc bs = Some b" "distinct (map location bs)"
      by (simp_all add: breakpoint_at_def)
    from Cons.IH [OF this(2) this(1) Cons.prems(3,4)] False show ?thesis
      by (cases "CheckBreakpoints pc bs") (auto simp: breakpoint_at_def)
  qed
qed


text \<open>
  C9, as stated, fails: a second \<^verbatim>\<open>SetBreakpoint\<close> for the same address with the other
  temporary flag leaves the breakpoint enabled. Here a regular breakpoint is set at
  \<open>0x1000\<close> and then set again as temporary.
\<close>

theorem SetBreakpoint_twice_counterexample:
  "map_option enabled
     (breakpoint_at 0x1000 (SetBreakpoint (SetBreakpoint [] 0x1000 False) 0x1000 True))
   = Some True
   \<and> map_option enabled (breakpoint_at 0x1000 (SetBreakpoint [] 0x1000 False)) = Some True"
  by (simp add: breakpoint_at_def)

text \<open>
  C9, amended. Calling \<^verbatim>\<open>SetBreakpoint\<close> twice for the same address with the same
  temporary flag adds no entry on the second call and toggles the enabled state of the
  breakpoint at that address on the second call. With one entry per address (which
  \<^verbatim>\<open>SetBreakpoint\<close> maintains), an enabled temporary breakpoint at the program counter is
  hit and disabled by \<^verbatim>\<open>CheckBreakpoints\<close>, and the next \<^verbatim>\<open>CheckBreakpoints\<close> at the same
  program counter hits nothing and changes nothing.
\<close>

theorem breakpoint_lifecycle:
  "length (SetBreakpoint (SetBreakpoint bs loc tb) loc tb) = length (SetBreakpoint bs loc tb)
   \<and> breakpoint_at loc (SetBreakpoint bs loc tb) \<noteq> None
   \<and> map_option enabled (breakpoint_at loc (SetBreakpoint (SetBreakpoint bs loc tb) loc tb))
       = map_option (\<lambda>b. \<not> enabled b) (breakpoint_at loc (SetBreakpoint bs loc tb))
   \<and> (distinct (map location bs) \<longrightarrow>
        distinct (map location (SetBreakpoint bs loc tb)))
   \<and> (distinct (map location bs) \<and> breakpoint_at pc bs = Some b \<and> enabled b \<and> is_tbreak b \<longrightarrow>
        fst (CheckBreakpoints pc bs)
        \<and> breakpoint_at pc (snd (CheckBreakpoints pc bs)) = Some (b\<lparr>enabled := False\<rparr>)
        \<and> CheckBreakpoints pc (snd (CheckBreakpoints pc bs))
            = (False, snd (CheckBreakpoints pc bs)))"
proof (intro conjI impI)
  let ?bs1 = "SetBreakpoint bs loc tb"
  show found: "breakpoint_at loc ?bs1 \<noteq> None"
    by (rule SetBreakpoint_found)
  then show "length (SetBreakpoint ?bs1 loc tb) = length ?bs1"
    by (rule SetBreakpoint_length_found)
  from found obtain b1 where b1: "breakpoint_at loc ?bs1 = Some b1"
    by blast
  have kind: "is_tbreak b1 = tb"
  proof (cases "breakpoint_at loc bs")
    case None
    then have "loc \<notin> location ` set bs"
      by (simp add: breakpoint_at_None)
    then have "breakpoint_at loc ?bs1
        = Some \<lparr>location = loc, enabled = True, is_tbreak = tb\<rparr>"
      by (induction bs) (auto simp: breakpoint_at_def)
    with b1 show ?thesis by auto
  next
    case (Some b0)
    from SetBreakpoint_at_same [OF this, of tb] b1 show ?thesis
      by (auto split: if_splits)
  qed
  from SetBreakpoint_at_same [OF b1, of tb] kind b1
  show "map_option enabled (breakpoint_at loc (SetBreakpoint ?bs1 loc tb))
       = map_option (\<lambda>b. \<not> enabled b) (breakpoint_at loc ?bs1)"
    by simp
  show "distinct (map location ?bs1)" if "distinct (map location bs)"
    using that by (rule SetBreakpoint_distinct)
next
  assume a: "distinct (map location bs) \<and> breakpoint_at pc bs = Some b \<and> enabled b \<and> is_tbreak b"
  then have *: "fst (CheckBreakpoints pc bs)
    \<and> breakpoint_at pc (snd (CheckBreakpoints pc bs)) = Some (b\<lparr>enabled := False\<rparr>)
    \<and> CheckBreakpoints pc (snd (CheckBreakpoints pc bs)) = (False, snd (CheckBreakpoints pc bs))"
    by (intro CheckBreakpoints_tbreak) simp_all
  from * show "fst (CheckBreakpoints pc bs)" by simp
  from * show "breakpoint_at pc (snd (CheckBreakpoints pc bs)) = Some (b\<lparr>enabled := False\<rparr>)"
    by simp
  from * show "CheckBreakpoints pc (snd (CheckBreakpoints pc bs))
      = (False, snd (CheckBreakpoints pc bs))"
    by simp
qed

theorem breakpoint_lifecycle_witness:
  "SetBreakpoint (SetBreakpoint [] 0x1000 True) 0x1000 True
     = [\<lparr>location = 0x1000, enabled = False, is_tbreak = True\<rparr>]
   \<and> CheckBreakpoints 0x1000 [\<lparr>location = 0x1000, enabled = True, is_tbreak = True\<rparr>]
     = (True, [\<lparr>location = 0x1000, enabled = False, is_tbreak = True\<rparr>])
   \<and> CheckBreakpoints 0x1000 [\<lparr>location = 0x1000, enabled = False, is_tbreak = True\<rparr>]
     = (False, [\<lparr>location = 0x1000, enabled = False, is_tbreak = True\<rparr>])"
  using breakpoint_lifecycle [of "[]" "0x1000" True]
    breakpoint_lifecycle [of "[\<lparr>location = 0x1000, enabled = True, is_tbreak = True\<rparr>]"
      "0x1000" True "0x1000" "\<lparr>location = 0x1000, enabled = True, is_tbreak = True\<rparr>"]
  by (simp add: breakpoint_at_def)

text \<open>
  C10. When the address already has a breakpoint, \<^verbatim>\<open>SetBreakpoint\<close> adds no entry and
  leaves every location in place. Called with a temporary flag that differs from the
  entry's, it sets the entry's kind to the flag and keeps its enabled state; called with
  the entry's own flag, it toggles the enabled state. So the enabled state changes exactly
  when the flags match, and breakpoints at other addresses are untouched.
\<close>

theorem SetBreakpoint_existing:
  assumes "breakpoint_at loc bs = Some b"
  shows "length (SetBreakpoint bs loc tb) = length bs
    \<and> map location (SetBreakpoint bs loc tb) = map location bs
    \<and> breakpoint_at loc (SetBreakpoint bs loc tb)
        = Some (if is_tbreak b \<noteq> tb then b\<lparr>is_tbreak := tb\<rparr>
                else b\<lparr>enabled := \<not> enabled b\<rparr>)
    \<and> (\<forall>b'. breakpoint_at loc (SetBreakpoint bs loc tb) = Some b' \<longrightarrow>
          (enabled b' \<noteq> enabled b \<longleftrightarrow> is_tbreak b = tb))
    \<and> (\<forall>loc'. loc' \<noteq> loc \<longrightarrow>
          breakpoint_at loc' (SetBreakpoint bs loc tb) = breakpoint_at loc' bs)"
proof -
  from assms have ne: "breakpoint_at loc bs \<noteq> None" by simp
  show ?thesis
    using SetBreakpoint_length_found [OF ne] SetBreakpoint_locations_found [OF ne]
      SetBreakpoint_at_same [OF assms, of tb] SetBreakpoint_at_other [of _ loc bs tb]
    by auto
qed

theorem SetBreakpoint_existing_witness:
  "SetBreakpoint [\<lparr>location = 0x1000, enabled = True, is_tbreak = False\<rparr>] 0x1000 True
     = [\<lparr>location = 0x1000, enabled = True, is_tbreak = True\<rparr>]
   \<and> SetBreakpoint [\<lparr>location = 0x1000, enabled = True, is_tbreak = False\<rparr>] 0x1000 False
     = [\<lparr>location = 0x1000, enabled = False, is_tbreak = False\<rparr>]"
  using SetBreakpoint_existing [of "0x1000"
      "[\<lparr>location = 0x1000, enabled = True, is_tbreak = False\<rparr>]"
      "\<lparr>location = 0x1000, enabled = True, is_tbreak = False\<rparr>" True]
    SetBreakpoint_existing [of "0x1000"
      "[\<lparr>location = 0x1000, enabled = True, is_tbreak = False\<rparr>]"
      "\<lparr>location = 0x1000, enabled = True, is_tbreak = False\<rparr>" False]
  by (simp add: breakpoint_at_def)

subsection \<open>Integer division and remainder\<close>

lemma sext_xlen_id: "sext_xlen x = x"
  by (simp add: sext_xlen_def xlen_def)

lemma zext_xlen_id: "zext_xlen x = x"
  by (simp add: zext_xlen_def xlen_def)

text \<open>
  C3. For every 64-bit \<open>x\<close>: signed \<open>x / 0\<close> is \<open>-1\<close>, unsigned \<open>x / 0\<close> is all ones,
  signed and unsigned \<open>x % 0\<close> are \<open>x\<close>, \<^verbatim>\<open>INT64_MIN / -1\<close> is \<^verbatim>\<open>INT64_MIN\<close> and
  \<^verbatim>\<open>INT64_MIN % -1\<close> is 0; and no operands of the four executors reach a trapping host
  division.
\<close>

theorem division_special_cases:
  "DecodeRVRType RO_DIV x 0 = Some (- 1)
   \<and> DecodeRVRType RO_DIVU x 0 = Some 0xFFFFFFFFFFFFFFFF
   \<and> DecodeRVRType RO_REM x 0 = Some x
   \<and> DecodeRVRType RO_REMU x 0 = Some x
   \<and> DecodeRVRType RO_DIV 0x8000000000000000 (- 1) = Some 0x8000000000000000
   \<and> DecodeRVRType RO_REM 0x8000000000000000 (- 1) = Some 0
   \<and> DecodeRVRType op x y \<noteq> None"
  by (cases op)
    (simp_all add: sext_xlen_id zext_xlen_id Let_def INT64_MIN_def UINT64_MAX_def
      int64_div_def int64_rem_def uint64_div_def uint64_rem_def)

subsection \<open>Saturating addition\<close>

lemma sle_zero_iff: "0 \<le>s w \<longleftrightarrow> \<not> bit w (LENGTH('a) - Suc 0)" for w :: "'a::len word"
  by (simp add: word_sle_eq bit_last_iff not_less)

lemma drop_bit_last: "drop_bit (LENGTH('a) - Suc 0) w = of_bool (bit w (LENGTH('a) - Suc 0))"
  for w :: "'a::len word"
proof (rule bit_word_eqI)
  fix n assume "n < LENGTH('a)"
  show "bit (drop_bit (LENGTH('a) - Suc 0) w) n
    \<longleftrightarrow> bit (of_bool (bit w (LENGTH('a) - Suc 0)) :: 'a word) n"
  proof (cases n)
    case 0
    then show ?thesis by (simp add: bit_simps)
  next
    case (Suc m)
    have "\<not> bit w (LENGTH('a) - Suc 0 + Suc m)"
      using bit_imp_le_length [of w "LENGTH('a) - Suc 0 + Suc m"] by auto
    with Suc show ?thesis by (simp add: bit_simps)
  qed
qed

lemma sint_type_min:
  "sint (2 ^ (LENGTH('a) - Suc 0) :: 'a::len word) = - (2 ^ (LENGTH('a) - Suc 0))"
proof -
  let ?n = "LENGTH('a) - Suc 0"
  have u: "uint (2 ^ ?n :: 'a word) = 2 ^ ?n"
    by (simp add: uint_2p word_greater_zero_iff)
  have "sint (2 ^ ?n :: 'a word) = signed_take_bit ?n (2 ^ ?n :: int)"
    by (simp only: sint_uint u)
  moreover have "signed_take_bit ?n (2 ^ ?n :: int) \<le> 2 ^ ?n - 2 ^ Suc ?n"
    by (rule signed_take_bit_int_less_eq) simp
  then have "signed_take_bit ?n (2 ^ ?n :: int) \<le> - (2 ^ ?n)"
    using power_Suc [of "2 :: int" ?n] by linarith
  moreover have "- (2 ^ ?n) \<le> signed_take_bit ?n (2 ^ ?n :: int)"
    by (rule signed_take_bit_int_greater_eq_minus_exp)
  ultimately show ?thesis by linarith
qed

lemma sint_type_max:
  "sint (mask (LENGTH('a) - Suc 0) :: 'a::len word) = 2 ^ (LENGTH('a) - Suc 0) - 1"
proof -
  let ?n = "LENGTH('a) - Suc 0"
  have u: "uint (mask ?n :: 'a word) = 2 ^ ?n - 1"
    by (simp add: uint_mask_eq min_def) (simp add: mask_eq_exp_minus_1)
  have "sint (mask ?n :: 'a word) = signed_take_bit ?n (2 ^ ?n - 1 :: int)"
    by (simp only: sint_uint u)
  then show ?thesis
    by (simp add: signed_take_bit_int_eq_self)
qed

lemma bit_type_min: "bit (2 ^ (LENGTH('a) - Suc 0) :: 'a::len word) (LENGTH('a) - Suc 0)"
  by (simp add: bit_simps)

lemma bit_type_max: "\<not> bit (mask (LENGTH('a) - Suc 0) :: 'a::len word) (LENGTH('a) - Suc 0)"
  by (simp add: bit_simps)

lemma sat_add_unfold:
  "sat_add x y =
     (if bit x (LENGTH('a) - Suc 0) = bit y (LENGTH('a) - Suc 0)
         \<and> bit y (LENGTH('a) - Suc 0) \<noteq> bit (x + y) (LENGTH('a) - Suc 0)
      then (if bit x (LENGTH('a) - Suc 0) then 2 ^ (LENGTH('a) - Suc 0)
            else mask (LENGTH('a) - Suc 0), True)
      else (x + y, False))"
  for x y :: "'a::len word"
proof -
  let ?sh = "LENGTH('a) - Suc 0"
  let ?ux = "drop_bit ?sh x + (push_bit ?sh 1 - 1)"
  have ux: "?ux = (if bit x ?sh then 2 ^ ?sh else mask ?sh)"
    by (simp add: drop_bit_last push_bit_eq_mult mask_eq_exp_minus_1)
  have bux: "bit ?ux ?sh = bit x ?sh"
    unfolding ux using bit_type_min [where 'a='a] bit_type_max [where 'a='a] by simp
  have "bit ((?ux XOR y) OR NOT (y XOR (x + y))) ?sh
      \<longleftrightarrow> \<not> (bit x ?sh = bit y ?sh \<and> bit y ?sh \<noteq> bit (x + y) ?sh)"
    unfolding bit_or_iff bit_xor_iff bit_not_iff bux by auto
  then have "0 \<le>s ((?ux XOR y) OR NOT (y XOR (x + y)))
      \<longleftrightarrow> bit x ?sh = bit y ?sh \<and> bit y ?sh \<noteq> bit (x + y) ?sh"
    unfolding sle_zero_iff by blast
  then show ?thesis
    unfolding sat_add_def Let_def One_nat_def ux by simp
qed


lemma sat_add_sint:
  fixes x y :: "'a::len word"
  defines "n \<equiv> LENGTH('a) - Suc 0"
  shows "snd (sat_add x y) \<longleftrightarrow> \<not> (- (2 ^ n) \<le> sint x + sint y \<and> sint x + sint y < 2 ^ n)"
    and "sint (fst (sat_add x y)) =
      (if sint x + sint y < - (2 ^ n) then - (2 ^ n)
       else if 2 ^ n \<le> sint x + sint y then 2 ^ n - 1
       else sint x + sint y)"
proof -
  let ?s = "sint x + sint y"
  have xb: "- (2 ^ n) \<le> sint x" "sint x < 2 ^ n" and yb: "- (2 ^ n) \<le> sint y" "sint y < 2 ^ n"
    unfolding n_def by (rule sint_greater_eq sint_less)+
  have r: "sint (x + y) = signed_take_bit n ?s"
    unfolding n_def by (simp add: sint_word_add)
  have bx: "bit x n \<longleftrightarrow> sint x < 0" and bsy: "bit y n \<longleftrightarrow> sint y < 0"
    and br: "bit (x + y) n \<longleftrightarrow> sint (x + y) < 0"
    unfolding n_def by (rule bit_last_iff)+
  have p: "(2 :: int) ^ Suc n = 2 * 2 ^ n" by simp
  have p0: "(0 :: int) < 2 ^ n" by simp
  consider (inr) "- (2 ^ n) \<le> ?s" "?s < 2 ^ n" | (hi) "2 ^ n \<le> ?s" | (lo) "?s < - (2 ^ n)"
    by linarith
  then have "snd (sat_add x y) = (\<not> (- (2 ^ n) \<le> ?s \<and> ?s < 2 ^ n))
    \<and> sint (fst (sat_add x y)) =
      (if ?s < - (2 ^ n) then - (2 ^ n) else if 2 ^ n \<le> ?s then 2 ^ n - 1 else ?s)"
  proof cases
    case inr
    then have "sint (x + y) = ?s"
      unfolding r by (simp add: signed_take_bit_int_eq_self)
    with inr show ?thesis
      unfolding sat_add_unfold n_def [symmetric] bx bsy br by (auto simp: n_def)
  next
    case hi
    from signed_take_bit_int_less_eq [OF hi] have "sint (x + y) \<le> ?s - 2 ^ Suc n"
      unfolding r .
    with xb yb p have neg: "sint (x + y) < 0" by linarith
    from hi xb yb have "0 \<le> sint x" "0 \<le> sint y" by linarith+
    moreover from hi p0 have "\<not> ?s < - (2 ^ n)" by linarith
    ultimately show ?thesis
      unfolding sat_add_unfold n_def [symmetric] bx bsy br
      using sint_type_max [where 'a='a] hi neg by (auto simp: n_def)
  next
    case lo
    from signed_take_bit_int_greater_eq [OF lo] have "?s + 2 ^ Suc n \<le> sint (x + y)"
      unfolding r .
    with xb yb p have pos: "0 \<le> sint (x + y)" by linarith
    from lo xb yb have "sint x < 0" "sint y < 0" by linarith+
    moreover from lo p0 have "\<not> 2 ^ n \<le> ?s" by linarith
    ultimately show ?thesis
      unfolding sat_add_unfold n_def [symmetric] bx bsy br
      using sint_type_min [where 'a='a] lo pos by (auto simp: n_def)
  qed
  then show "snd (sat_add x y) \<longleftrightarrow> \<not> (- (2 ^ n) \<le> sint x + sint y \<and> sint x + sint y < 2 ^ n)"
    and "sint (fst (sat_add x y)) =
      (if sint x + sint y < - (2 ^ n) then - (2 ^ n)
       else if 2 ^ n \<le> sint x + sint y then 2 ^ n - 1
       else sint x + sint y)"
    by blast+
qed


text \<open>
  C4. At every width, the value returned by \<^verbatim>\<open>sat_add\<close> lies between the type's minimum
  and maximum, the flag \<^verbatim>\<open>sat\<close> is set exactly when the mathematical sum of the signed
  operands lies outside that range, the result is then the maximum on overflow and the
  minimum on underflow, and otherwise it is the sum.
\<close>

theorem sat_add_saturating:
  fixes x y :: "'a::len word"
  shows "- (2 ^ (LENGTH('a) - 1)) \<le> sint (fst (sat_add x y))
    \<and> sint (fst (sat_add x y)) \<le> 2 ^ (LENGTH('a) - 1) - 1
    \<and> (snd (sat_add x y) \<longleftrightarrow>
         sint x + sint y < - (2 ^ (LENGTH('a) - 1)) \<or> 2 ^ (LENGTH('a) - 1) - 1 < sint x + sint y)
    \<and> (2 ^ (LENGTH('a) - 1) - 1 < sint x + sint y \<longrightarrow>
         sint (fst (sat_add x y)) = 2 ^ (LENGTH('a) - 1) - 1)
    \<and> (sint x + sint y < - (2 ^ (LENGTH('a) - 1)) \<longrightarrow>
         sint (fst (sat_add x y)) = - (2 ^ (LENGTH('a) - 1)))
    \<and> (\<not> snd (sat_add x y) \<longrightarrow> sint (fst (sat_add x y)) = sint x + sint y)"
proof -
  have "- (2 ^ (LENGTH('a) - Suc 0)) \<le> sint (fst (sat_add x y))"
    by (rule sint_greater_eq)
  moreover have "sint (fst (sat_add x y)) < 2 ^ (LENGTH('a) - Suc 0)"
    by (rule sint_less)
  moreover note sat_add_sint [of x y]
  ultimately show ?thesis
    unfolding One_nat_def by (auto split: if_splits)
qed

theorem sat_add_saturating_witness:
  "snd (sat_add (100 :: 8 word) 100) \<and> sint (fst (sat_add (100 :: 8 word) 100)) = 127
   \<and> snd (sat_add (- 100 :: 8 word) (- 100)) \<and> sint (fst (sat_add (- 100 :: 8 word) (- 100))) = - 128
   \<and> \<not> snd (sat_add (- 100 :: 8 word) 27) \<and> sint (fst (sat_add (- 100 :: 8 word) 27)) = - 73"
  using sat_add_saturating [of "100 :: 8 word" 100]
    sat_add_saturating [of "- 100 :: 8 word" "- 100"]
    sat_add_saturating [of "- 100 :: 8 word" 27]
  by simp

subsection \<open>Load-linked and store-conditional\<close>

lemma fold_others_same:
  "fold (\<lambda>iter c. if iter \<noteq> p then c(iter := f iter c) else c) xs c p = c p"
  by (induction xs arbitrary: c) simp_all

lemma fold_NotifyStore_Locked_Open:
  "linked_access_state (c p) = Open \<Longrightarrow>
   fold (\<lambda>iter c. c(iter := NotifyStore_Locked (c iter))) xs c p = c p"
proof (induction xs arbitrary: c)
  case Nil
  then show ?case by simp
next
  case (Cons a xs)
  let ?c = "c(a := NotifyStore_Locked (c a))"
  from Cons.prems have same: "?c p = c p"
    by (auto simp: NotifyStore_Locked_def)
  with Cons.prems have "linked_access_state (?c p) = Open"
    by simp
  with Cons.IH [of ?c] same show ?case
    by simp
qed

lemma linked_PrependProcessor_Locked [simp]: "linked (PrependProcessor_Locked p g) = linked g"
  by (simp add: PrependProcessor_Locked_def)

lemma store_conditional_Open:
  "access_state m = Open \<Longrightarrow> store_conditional K M p addr sz (m, g) = (False, m, g)"
  by (simp add: store_conditional_def NotifyStoreConditional_def)

lemma store_conditional_mismatch:
  "(addr', sz') \<noteq> (addr, sz) \<Longrightarrow>
   store_conditional K M p addr' sz' (load_linked p addr sz (m, g))
     = (False, load_linked p addr sz (m, g))"
  by (auto simp: store_conditional_def load_linked_def NotifyStoreConditional_def
      NotifyLoadLinked_def)

lemma store_conditional_after_load_linked:
  fixes K M p addr sz m g
  defines "r \<equiv> store_conditional K M p addr sz (load_linked p addr sz (m, g))"
  shows "fst r \<longleftrightarrow> failure_counter (linked g p) < K"
    and "access_state (fst (snd r)) = Open"
    and "linked_access_state (linked (snd (snd r)) p) = Open"
    and "failure_counter (linked (snd (snd r)) p)
           = (if fst r then failure_counter (linked g p) + 1 else 0)"
proof -
  let ?a = "NotifyLoadLinked_Locked addr (linked g p)"
  let ?g1 = "GlobalMonitor_NotifyLoadLinked_Locked addr p g"
  have g1p: "linked ?g1 p = ?a"
    by (simp add: GlobalMonitor_NotifyLoadLinked_Locked_def)
  have loc: "NotifyStoreConditional addr sz (NotifyLoadLinked addr sz m)
      = (True, Clear (NotifyLoadLinked addr sz m))"
    by (simp add: NotifyStoreConditional_def NotifyLoadLinked_def)
  show "fst r \<longleftrightarrow> failure_counter (linked g p) < K"
    unfolding r_def
    by (simp add: store_conditional_def load_linked_def loc
        GlobalMonitor_NotifyStoreConditional_Locked_def g1p NotifyStoreConditional_Locked_def
        NotifyLoadLinked_Locked_def Clear_Locked_def Let_def split: prod.splits)
  show "access_state (fst (snd r)) = Open"
    unfolding r_def
    by (simp add: store_conditional_def load_linked_def loc NotifyStore_def Clear_def
        split: prod.splits)
  show "linked_access_state (linked (snd (snd r)) p) = Open"
    unfolding r_def
    by (simp add: store_conditional_def load_linked_def loc
        GlobalMonitor_NotifyStoreConditional_Locked_def g1p NotifyStoreConditional_Locked_def
        NotifyLoadLinked_Locked_def Clear_Locked_def Let_def GlobalMonitor_NotifyStore_Locked_def
        fold_others_same fold_NotifyStore_Locked_Open split: prod.splits)
  show "failure_counter (linked (snd (snd r)) p)
           = (if fst r then failure_counter (linked g p) + 1 else 0)"
    unfolding r_def
    by (simp add: store_conditional_def load_linked_def loc
        GlobalMonitor_NotifyStoreConditional_Locked_def g1p NotifyStoreConditional_Locked_def
        NotifyLoadLinked_Locked_def Clear_Locked_def Let_def GlobalMonitor_NotifyStore_Locked_def
        fold_others_same fold_NotifyStore_Locked_Open split: prod.splits)
qed


text \<open>
  C2, as stated, fails: a store-conditional immediately after a load-linked to the same
  address and size does not always succeed. With a failure threshold of 5, five such
  pairs from the initial monitors succeed and the store-conditional of the sixth fails.
\<close>

theorem store_conditional_counterexample:
  "\<not> fst (ll_sc 5 (- 8) 0 0x100 TransactionSize_Word
     (snd (ll_sc 5 (- 8) 0 0x100 TransactionSize_Word
     (snd (ll_sc 5 (- 8) 0 0x100 TransactionSize_Word
     (snd (ll_sc 5 (- 8) 0 0x100 TransactionSize_Word
     (snd (ll_sc 5 (- 8) 0 0x100 TransactionSize_Word
     (snd (ll_sc 5 (- 8) 0 0x100 TransactionSize_Word
       (LocalMonitor_init, GlobalMonitor_init))))))))))))"
  by (simp add: ll_sc_def store_conditional_def load_linked_def
      NotifyStoreConditional_def NotifyLoadLinked_def NotifyStore_def Clear_def
      GlobalMonitor_NotifyStoreConditional_Locked_def GlobalMonitor_NotifyLoadLinked_Locked_def
      GlobalMonitor_NotifyStore_Locked_def PrependProcessor_Locked_def
      IsProcessorInLinkedList_Locked_def NotifyStoreConditional_Locked_def
      NotifyLoadLinked_Locked_def NotifyStore_Locked_def Clear_Locked_def
      LocalMonitor_init_def GlobalMonitor_init_def LinkedAddress_init_def Let_def)

text \<open>
  C2, amended. On processor \<open>p\<close>: a store-conditional with the local monitor open (no
  load-linked since it was last cleared) fails and changes nothing. A store-conditional
  immediately after a load-linked to the same address and size succeeds exactly when
  \<open>p\<close>'s failure counter is below \<^verbatim>\<open>kMaxFailureCounter\<close>; it then adds one to the counter,
  and otherwise fails and resets the counter to 0. Either way it clears the local and the
  global reservation of \<open>p\<close>, so a second immediate store-conditional fails and changes
  nothing. A store-conditional whose address or size differs from the load-linked's fails
  and changes nothing.
\<close>

theorem load_linked_store_conditional:
  "(access_state m = Open \<longrightarrow> store_conditional K M p addr sz (m, g) = (False, m, g))
   \<and> (fst (ll_sc K M p addr sz (m, g)) \<longleftrightarrow> failure_counter (linked g p) < K)
   \<and> access_state (fst (snd (ll_sc K M p addr sz (m, g)))) = Open
   \<and> linked_access_state (linked (snd (snd (ll_sc K M p addr sz (m, g)))) p) = Open
   \<and> failure_counter (linked (snd (snd (ll_sc K M p addr sz (m, g)))) p)
       = (if fst (ll_sc K M p addr sz (m, g)) then failure_counter (linked g p) + 1 else 0)
   \<and> store_conditional K M p addr sz (snd (ll_sc K M p addr sz (m, g)))
       = (False, snd (ll_sc K M p addr sz (m, g)))
   \<and> ((addr', sz') \<noteq> (addr, sz) \<longrightarrow>
        store_conditional K M p addr' sz' (load_linked p addr sz (m, g))
          = (False, load_linked p addr sz (m, g)))"
proof -
  let ?r = "ll_sc K M p addr sz (m, g)"
  have o: "access_state (fst (snd ?r)) = Open"
    unfolding ll_sc_def by (rule store_conditional_after_load_linked)
  have "store_conditional K M p addr sz (fst (snd ?r), snd (snd ?r))
      = (False, fst (snd ?r), snd (snd ?r))"
    using o by (rule store_conditional_Open)
  then have again: "store_conditional K M p addr sz (snd ?r) = (False, snd ?r)"
    by simp
  show ?thesis
    using store_conditional_after_load_linked [of K M p addr sz m g] again
      store_conditional_mismatch [of addr' sz' addr sz K M p m g]
    by (simp add: ll_sc_def store_conditional_Open)
qed

theorem load_linked_store_conditional_witness:
  "store_conditional 5 (- 8) 0 0x100 TransactionSize_Word (LocalMonitor_init, GlobalMonitor_init)
     = (False, LocalMonitor_init, GlobalMonitor_init)
   \<and> fst (ll_sc 5 (- 8) 0 0x100 TransactionSize_Word (LocalMonitor_init, GlobalMonitor_init))
   \<and> \<not> fst (store_conditional 5 (- 8) 0 0x100 TransactionSize_Word
        (snd (ll_sc 5 (- 8) 0 0x100 TransactionSize_Word (LocalMonitor_init, GlobalMonitor_init))))
   \<and> \<not> fst (store_conditional 5 (- 8) 0 0x108 TransactionSize_Word
        (load_linked 0 0x100 TransactionSize_Word (LocalMonitor_init, GlobalMonitor_init)))"
  using load_linked_store_conditional [of LocalMonitor_init 5 "- 8" 0 "0x100"
      TransactionSize_Word GlobalMonitor_init "0x108" TransactionSize_Word]
  by (simp add: LocalMonitor_init_def GlobalMonitor_init_def LinkedAddress_init_def)

subsection \<open>Floating-point minimum and maximum\<close>

text \<open>
  When exactly one operand of \<^verbatim>\<open>FMaxMinHelper\<close> is a NaN the result is the other operand,
  and when both are NaN it is the quiet NaN.
\<close>

lemma FMaxMinHelper_NaN:
  "(isnan frac a \<and> isnan frac b \<longrightarrow>
      fst (FMaxMinHelper frac kFcsrFrmShift kInvalidOperation a b kind FCSR) = quiet_NaN frac)
   \<and> (isnan frac a \<and> \<not> isnan frac b \<longrightarrow>
      fst (FMaxMinHelper frac kFcsrFrmShift kInvalidOperation a b kind FCSR) = b)
   \<and> (\<not> isnan frac a \<and> isnan frac b \<longrightarrow>
      fst (FMaxMinHelper frac kFcsrFrmShift kInvalidOperation a b kind FCSR) = a)"
  by (simp add: FMaxMinHelper_def Let_def)

text \<open>
  The guard of \<^verbatim>\<open>FMaxMinHelper\<close> compares each operand with the signaling NaN by \<^verbatim>\<open>==\<close>,
  which is false against a NaN: in both formats the call leaves \<^verbatim>\<open>FCSR_\<close> as it was, for
  all operands.
\<close>

lemma FMaxMinHelper_FCSR_double:
  "snd (FMaxMinHelper 52 kFcsrFrmShift kInvalidOperation (a :: 64 word) b kind FCSR) = FCSR"
proof -
  have "isnan 52 (signaling_NaN 52 :: 64 word)"
    by code_simp
  then show ?thesis
    by (simp add: FMaxMinHelper_def float_eq_def Let_def)
qed

lemma FMaxMinHelper_FCSR_float:
  "snd (FMaxMinHelper 23 kFcsrFrmShift kInvalidOperation (a :: 32 word) b kind FCSR) = FCSR"
proof -
  have "isnan 23 (signaling_NaN 23 :: 32 word)"
    by code_simp
  then show ?thesis
    by (simp add: FMaxMinHelper_def float_eq_def Let_def)
qed

text \<open>
  C5. A signaling NaN operand does not set the invalid-operation flag. For the
  double-precision maximum of the signaling NaN \<open>0x7FF4000000000000\<close> (the value of
  \<^verbatim>\<open>std::numeric_limits<double>::signaling_NaN()\<close>) and \<open>5.0\<close> (\<open>0x4014000000000000\<close>),
  with \<^verbatim>\<open>FCSR_\<close> at 0 and the invalid-operation bit \<open>0x10\<close>, \<^verbatim>\<open>FMaxMinHelper\<close> leaves
  \<^verbatim>\<open>FCSR_\<close> at 0, where setting the flag gives \<open>0x10\<close>; it returns \<open>5.0\<close>, the operand
  that is not a NaN.
\<close>

theorem FMaxMinHelper_signaling_NaN_flag:
  "FMaxMinHelper 52 5 0x10 (0x7FF4000000000000 :: 64 word) 0x4014000000000000 kMax 0
     = (0x4014000000000000, 0)
   \<and> set_csr_bits 5 csr_fflags 0x10 0 = 0x10
   \<and> \<not> isnan 52 (0x4014000000000000 :: 64 word)
   \<and> isnan 52 (0x7FF4000000000000 :: 64 word)
   \<and> signaling_NaN 52 = (0x7FF4000000000000 :: 64 word)"
  by code_simp

subsection \<open>Vector register accesses\<close>










lemma vrgather_step_fields:
  "vsew (vrgather_step instr i s) = vsew s" "vlmax (vrgather_step instr i s) = vlmax s"
  "vl (vrgather_step instr i s) = vl s"
  by (simp_all add: vrgather_step_def Let_def)

lemma fold_vrgather_step_fields:
  "vsew (fold (vrgather_step instr) js s) = vsew s \<and> vlmax (fold (vrgather_step instr) js s) = vlmax s"
  by (induction js arbitrary: s) (simp_all add: vrgather_step_fields)




subsection \<open>Vector add with carry\<close>

text \<open>
  C7. The unmasked \<^verbatim>\<open>vadc.vv\<close> does not store the sum. With 8-bit elements, one active
  element, \<open>vs1[0] = 2\<close>, \<open>vs2[0] = 3\<close> and a mask register of 0, the claim gives
  \<open>vd[0] = 5\<close>; the code stores \<open>(2 + 3 + 0) & 1 = 1\<close>. The masked variant ends in
  \<^verbatim>\<open>UNREACHABLE()\<close>, as the claim says.
\<close>

theorem vadc_vv_failing_input:
  "map_sum id (\<lambda>s'. Rvvelt 1 (Vregister s') 3 0)
     (DecodeRvvIVV RO_V_VADC_VV
        \<lparr>RvvVM = True, rvv_vd_reg = 3, rvv_vs1_reg = 1, rvv_vs2_reg = 2\<rparr> vadc_input)
     = Inr 1
   \<and> Rvvelt 1 (Vregister vadc_input) 1 0 = 2
   \<and> Rvvelt 1 (Vregister vadc_input) 2 0 = 3
   \<and> Rvvelt 8 (Vregister vadc_input) 0 0 = 0
   \<and> DecodeRvvIVV RO_V_VADC_VV
        \<lparr>RvvVM = False, rvv_vd_reg = 3, rvv_vs1_reg = 1, rvv_vs2_reg = 2\<rparr> vadc_input
     = Inl Unreachable"
proof (intro conjI)
  show "map_sum id (\<lambda>s'. Rvvelt 1 (Vregister s') 3 0)
     (DecodeRvvIVV RO_V_VADC_VV
        \<lparr>RvvVM = True, rvv_vd_reg = 3, rvv_vs1_reg = 1, rvv_vs2_reg = 2\<rparr> vadc_input)
     = Inr 1"
    by code_simp
  show "Rvvelt 1 (Vregister vadc_input) 1 0 = 2"
    by code_simp
  show "Rvvelt 1 (Vregister vadc_input) 2 0 = 3"
    by code_simp
  show "Rvvelt 8 (Vregister vadc_input) 0 0 = 0"
    by code_simp
  show "DecodeRvvIVV RO_V_VADC_VV
        \<lparr>RvvVM = False, rvv_vd_reg = 3, rvv_vs1_reg = 1, rvv_vs2_reg = 2\<rparr> vadc_input
     = Inl Unreachable"
    by simp
qed

subsection \<open>Vector register gather\<close>





end
